theory Spec2Isabelle
  imports Main "HOL-Library.Word"
begin

section \<open>Data model\<close>

text \<open>
  The class \<^verbatim>\<open>WaxJS\<close> of \<^verbatim>\<open>src/index.ts\<close> is embedded by explicit state passing.
  An \<^verbatim>\<open>async\<close> method becomes a function that returns the new state together with
  \<open>Inr\<close> of the value the promise resolves to, or \<open>Inl\<close> of the error it rejects with.
  JavaScript values that may be \<^verbatim>\<open>undefined\<close> or \<^verbatim>\<open>null\<close> are options.
\<close>

type_synonym byte = "8 word"
type_synonym window = nat

text \<open>
  Modelled from the spec: the interface \<^verbatim>\<open>IWhitelistedContract\<close> is imported from a file that
  is not part of the sources. The data model of the specification gives it a contract name
  and an optional sequence of recipients.
\<close>

record IWhitelistedContract =
  contract :: string
  recipients :: "string list option"

text \<open>An action as \<^verbatim>\<open>isWhitelisted\<close> reads it: \<^verbatim>\<open>action.account\<close>, \<^verbatim>\<open>action.name\<close>,
  \<^verbatim>\<open>action.data.to\<close>. Both \<^verbatim>\<open>data\<close> and \<^verbatim>\<open>data.to\<close> may be missing.\<close>

record action_data =
  to :: "string option"

record action =
  account :: string
  name :: string
  data :: "action_data option"

text \<open>A transaction either carries \<^verbatim>\<open>actions\<close> or is a serialized byte array.\<close>

datatype transaction = Deserialized "action list" | Serialized "byte list"

text \<open>
  The object \<^verbatim>\<open>event.data\<close> (of type \<^verbatim>\<open>any\<close>) with the fields that the handlers read.
  \<open>d_processed_except\<close> is the truth value of \<^verbatim>\<open>data.processed && data.processed.except\<close>.
\<close>

record payload =
  d_type :: "string option"
  d_verified :: "bool option"
  d_signatures :: "string list option"
  d_serializedTransaction :: "int list option"
  d_whitelistedContracts :: "IWhitelistedContract list option"
  d_userAccount :: "string option"
  d_pubKeys :: "string list option"
  d_autoLogin :: "bool option"
  d_processed_except :: bool

datatype endpoint_failure = HttpStatus nat | ProcessedExcept

datatype error =
    LoginDeclined
  | NoBlockchainAccount
  | LoginEndpointError endpoint_failure
  | SigningDeclined
  | SigningEndpointError endpoint_failure
  | UnexpectedSigningResponse payload
  | TypeError
  | Thrown string

text \<open>The argument and the result of a signature provider's \<^verbatim>\<open>sign\<close>.\<close>

record signatureProviderArgs =
  chainId :: string
  requiredKeys :: "string list"
  serializedTransaction :: "byte list option"


text \<open>The external co-signer: an object with the two methods that the class calls.\<close>

record signatureProvider =
  sp_getAvailableKeys :: "error + string list"
  sp_sign :: "signatureProviderArgs \<Rightarrow> error + string list"

text \<open>What \<^verbatim>\<open>receiveSignatures\<close> returns: the signed transaction, or the empty array.\<close>

datatype signing_result = TxSigned "string list" "byte list" | EmptyArray

record txArgs =
  transaction :: transaction
  waxPaysBW :: bool

text \<open>Calls that leave the page: a \<^verbatim>\<open>fetch\<close> of a URL (with the body of a POST), and a call
  of \<^verbatim>\<open>openEventSource\<close> with its URL, message and window arguments.\<close>

datatype io =
    Fetch string "txArgs option"
  | OpenEventSource string "txArgs option" "window option"

text \<open>The fields of the class, the browser's \<^verbatim>\<open>localStorage\<close>, and the log of outside calls.
  \<open>api\<close> tells whether \<^verbatim>\<open>this.api\<close> has been assigned.\<close>

record waxjs =
  userAccount :: "string option"
  pubKeys :: "string list option"
  signingWindow :: "window option"
  whitelistedContracts :: "IWhitelistedContract list option"
  apiSigner :: "signatureProvider option"
  waxSigningURL :: string
  waxAutoSigningURL :: string
  api :: bool
  localStorage :: "string \<rightharpoonup> string"
  trace :: "io list"

record response =
  ok :: bool
  status :: nat
  body :: "error + payload"

text \<open>
  The environment of one operation: the deserializer of the RPC library, the replies of the
  two backend endpoints (\<open>Inl\<close> when \<^verbatim>\<open>fetch\<close> rejects; the \<open>body\<close> of a response is \<open>Inl\<close>
  when \<^verbatim>\<open>response.json()\<close> rejects), the outcome of opening a fresh popup window, and
  the qualifying messages that the popup window delivers, in order.
\<close>

record env =
  deserializeTransactionWithActions :: "byte list \<Rightarrow> error + action list"
  fetch_login :: "error + response"
  fetch_signing :: "error + response"
  window_open :: "error + window"
  inbox :: "payload list"

section \<open>Whitelist evaluation\<close>

text \<open>\<^verbatim>\<open>Array.prototype.find\<close> with a callback that may throw: the elements are visited in
  order, the first one on which the callback is true is returned, and an exception of the
  callback ends the search.\<close>

fun array_find :: "('a \<Rightarrow> error + bool) \<Rightarrow> 'a list \<Rightarrow> error + 'a option" where
  "array_find p [] = Inr None"
| "array_find p (x # xs) =
     (case p x of
        Inl e \<Rightarrow> Inl e
      | Inr b \<Rightarrow> if b then Inr (Some x) else array_find p xs)"

text \<open>\<^verbatim>\<open>recipients.includes(action.data.to)\<close> on an array of strings: an undefined
  argument is not an element.\<close>

definition array_includes :: "string list \<Rightarrow> string option \<Rightarrow> bool" where
  "array_includes rs t = (case t of None \<Rightarrow> False | Some r \<Rightarrow> r \<in> set rs)"

text \<open>The callback of \<^verbatim>\<open>isWhitelisted\<close>. Reading \<^verbatim>\<open>includes\<close> of an undefined
  \<^verbatim>\<open>recipients\<close>, or \<^verbatim>\<open>to\<close> of an undefined \<^verbatim>\<open>data\<close>, throws a TypeError.\<close>

definition whitelist_callback :: "action \<Rightarrow> IWhitelistedContract \<Rightarrow> error + bool" where
  "whitelist_callback a w =
     (if contract w = account a then
        if account a = ''eosio.token'' \<and> name a = ''transfer'' then
          (case recipients w of
             None \<Rightarrow> Inl TypeError
           | Some rs \<Rightarrow>
               (case data a of
                  None \<Rightarrow> Inl TypeError
                | Some d \<Rightarrow> Inr (array_includes rs (to d))))
        else Inr True
      else Inr False)"

text \<open>\<^verbatim>\<open>this.whitelistedContracts\<close> is undefined until a login has been received.\<close>

definition isWhitelisted :: "waxjs \<Rightarrow> action \<Rightarrow> error + bool" where
  "isWhitelisted s a =
     (case whitelistedContracts s of
        None \<Rightarrow> Inl TypeError
      | Some wl \<Rightarrow>
          (case array_find (whitelist_callback a) wl of
             Inl e \<Rightarrow> Inl e
           | Inr r \<Rightarrow> Inr (r \<noteq> None)))"

definition not_whitelisted :: "waxjs \<Rightarrow> action \<Rightarrow> error + bool" where
  "not_whitelisted s a =
     (case isWhitelisted s a of Inl e \<Rightarrow> Inl e | Inr b \<Rightarrow> Inr (\<not> b))"

definition canAutoSign :: "env \<Rightarrow> waxjs \<Rightarrow> transaction \<Rightarrow> error + bool" where
  "canAutoSign ev s tx =
     (case (case tx of
              Deserialized acts \<Rightarrow> Inr acts
            | Serialized bs \<Rightarrow>
                if api s then deserializeTransactionWithActions ev bs else Inl TypeError) of
        Inl e \<Rightarrow> Inl e
      | Inr acts \<Rightarrow>
          (case array_find (not_whitelisted s) acts of
             Inl e \<Rightarrow> Inl e
           | Inr r \<Rightarrow> Inr (r = None)))"

text \<open>The whitelist rule in the words of the specification: some entry has the action's
  contract, and for a transfer of \<^verbatim>\<open>eosio.token\<close> that entry lists the destination.\<close>

definition lists_recipient :: "IWhitelistedContract \<Rightarrow> action \<Rightarrow> bool" where
  "lists_recipient w a =
     (case recipients w of
        None \<Rightarrow> False
      | Some rs \<Rightarrow> (case data a of None \<Rightarrow> False | Some d \<Rightarrow> array_includes rs (to d)))"

definition is_token_transfer :: "action \<Rightarrow> bool" where
  "is_token_transfer a = (account a = ''eosio.token'' \<and> name a = ''transfer'')"

definition spec_isWhitelisted :: "IWhitelistedContract list \<Rightarrow> action \<Rightarrow> bool" where
  "spec_isWhitelisted wl a =
     (\<exists>w \<in> set wl. contract w = account a \<and> (is_token_transfer a \<longrightarrow> lists_recipient w a))"

section \<open>Handlers of inbound messages\<close>

text \<open>\<^verbatim>\<open>whitelistedContracts || []\<close>.\<close>

definition or_empty :: "'a list option \<Rightarrow> 'a list" where
  "or_empty x = (case x of None \<Rightarrow> [] | Some xs \<Rightarrow> xs)"

text \<open>\<^verbatim>\<open>localStorage.setItem("autoLogin", autoLogin)\<close> stores the value as a string.\<close>

definition js_string :: "bool option \<Rightarrow> string" where
  "js_string b = (case b of None \<Rightarrow> ''undefined'' | Some v \<Rightarrow> if v then ''true'' else ''false'')"

text \<open>
  \<^verbatim>\<open>receiveLogin\<close>: the two checks, then the assignments. The signature provider that it
  installs is the pair of functions \<open>getAvailableKeys\<close> and \<open>sign\<close> below; here only \<open>api\<close>
  records that \<^verbatim>\<open>this.api\<close> now exists. The patched \<^verbatim>\<open>api.transact\<close>, which opens a window
  ahead of time and keeps it in \<^verbatim>\<open>this.signingWindow\<close>, is left out: \<open>signingWindow\<close> is
  whatever the session holds.
\<close>

definition receiveLogin :: "waxjs \<Rightarrow> payload \<Rightarrow> waxjs \<times> (error + string)" where
  "receiveLogin s d =
     (if d_verified d \<noteq> Some True then (s, Inl LoginDeclined)
      else
        (case d_userAccount d of
           None \<Rightarrow> (s, Inl NoBlockchainAccount)
         | Some u \<Rightarrow>
             (case d_pubKeys d of
                None \<Rightarrow> (s, Inl NoBlockchainAccount)
              | Some ks \<Rightarrow>
                  (s\<lparr>localStorage := (localStorage s)(''autoLogin'' \<mapsto> js_string (d_autoLogin d)),
                     whitelistedContracts := Some (or_empty (d_whitelistedContracts d)),
                     userAccount := Some u,
                     pubKeys := Some ks,
                     api := True\<rparr>,
                   Inr u))))"

text \<open>
  \<^verbatim>\<open>receiveSignatures\<close>. \<^verbatim>\<open>Uint8Array.from\<close> reduces every number modulo 256 and throws a
  TypeError on an undefined argument; by then the whitelist has been assigned.
\<close>

definition receiveSignatures :: "waxjs \<Rightarrow> payload \<Rightarrow> waxjs \<times> (error + signing_result)" where
  "receiveSignatures s d =
     (if d_type d = Some ''TX_SIGNED'' then
        (if d_verified d \<noteq> Some True then (s, Inl SigningDeclined)
         else
           (case d_signatures d of
              None \<Rightarrow> (s, Inl SigningDeclined)
            | Some sigs \<Rightarrow>
                (let s' = s\<lparr>whitelistedContracts := Some (or_empty (d_whitelistedContracts d))\<rparr>
                 in case d_serializedTransaction d of
                      None \<Rightarrow> (s', Inl TypeError)
                    | Some bs \<Rightarrow> (s', Inr (TxSigned sigs (map word_of_int bs))))))
      else if d_type d \<noteq> Some ''READY'' then (s, Inl (UnexpectedSigningResponse d))
      else (s, Inr EmptyArray))"

section \<open>The popup window bridge\<close>

text \<open>
  Modelled from the spec: \<^verbatim>\<open>WaxEventSource.openEventSource\<close> is not part of the sources.
  The specification gives \<^verbatim>\<open>openEventSource(url, payload?, existingWindow?) -> Window\<close>; a
  window handle that is passed in is reused, otherwise a new window is opened.
\<close>

definition openEventSource :: "env \<Rightarrow> window option \<Rightarrow> error + window" where
  "openEventSource ev win = (case win of Some w \<Rightarrow> Inr w | None \<Rightarrow> window_open ev)"

text \<open>
  Modelled from the spec: \<^verbatim>\<open>WaxEventSource.onceEvent\<close> is not part of the sources. The
  specification says that it resolves with the handler's return value after exactly one
  message whose origin matches, and rejects if the window is closed or an error occurs.
  The handler runs on the first message of the inbox; an empty inbox is a closed window.
\<close>

definition onceEvent ::
  "env \<Rightarrow> (waxjs \<Rightarrow> payload \<Rightarrow> waxjs \<times> (error + 'a)) \<Rightarrow> waxjs \<Rightarrow> waxjs \<times> (error + 'a)" where
  "onceEvent ev handler s =
     (case inbox ev of
        [] \<Rightarrow> (s, Inl (Thrown ''window closed''))
      | d # rest \<Rightarrow> handler s d)"

section \<open>Login\<close>

definition loginViaWindow :: "env \<Rightarrow> waxjs \<Rightarrow> waxjs \<times> (error + string)" where
  "loginViaWindow ev s =
     (let s1 = s\<lparr>trace := trace s @
                  [OpenEventSource (waxSigningURL s @ ''/cloud-wallet/login/'') None None]\<rparr>
      in case openEventSource ev None of
           Inl e \<Rightarrow> (s1, Inl e)
         | Inr w \<Rightarrow> onceEvent ev receiveLogin s1)"

definition loginViaEndpoint :: "env \<Rightarrow> waxjs \<Rightarrow> waxjs \<times> (error + string)" where
  "loginViaEndpoint ev s =
     (let s1 = s\<lparr>trace := trace s @ [Fetch (waxAutoSigningURL s @ ''login'') None]\<rparr>
      in case fetch_login ev of
           Inl e \<Rightarrow> (s1, Inl e)
         | Inr r \<Rightarrow>
             if \<not> ok r then (s1, Inl (LoginEndpointError (HttpStatus (status r))))
             else
               (case body r of
                  Inl e \<Rightarrow> (s1, Inl e)
                | Inr d \<Rightarrow>
                    if d_processed_except d then (s1, Inl (LoginEndpointError ProcessedExcept))
                    else receiveLogin s1 d))"

text \<open>A string is truthy when it is not empty.\<close>

definition logged_in :: "waxjs \<Rightarrow> bool" where
  "logged_in s =
     ((case userAccount s of None \<Rightarrow> False | Some u \<Rightarrow> u \<noteq> []) \<and> pubKeys s \<noteq> None)"

definition login :: "env \<Rightarrow> waxjs \<Rightarrow> waxjs \<times> (error + string)" where
  "login ev s =
     (case userAccount s of
        None \<Rightarrow> loginViaWindow ev s
      | Some u \<Rightarrow> if logged_in s then (s, Inr u) else loginViaWindow ev s)"

text \<open>The argument object of the constructor, with its optional fields.\<close>

record config =
  rpcEndpoint :: string
  tryAutoLogin :: "bool option"
  c_userAccount :: "string option"
  c_pubKeys :: "string list option"
  c_apiSigner :: "signatureProvider option"
  c_waxSigningURL :: "string option"
  c_waxAutoSigningURL :: "string option"

definition default_to :: "'a \<Rightarrow> 'a option \<Rightarrow> 'a" where
  "default_to v x = (case x of None \<Rightarrow> v | Some y \<Rightarrow> y)"

text \<open>
  The constructor, given the browser's \<^verbatim>\<open>localStorage\<close>. It does not wait for the promise
  of \<^verbatim>\<open>receiveLogin\<close> or of \<^verbatim>\<open>loginViaEndpoint\<close> and drops its value. \<^verbatim>\<open>receiveLogin\<close> has
  no \<^verbatim>\<open>await\<close>, so its assignments are made before the constructor returns; the automatic
  login is taken here as having run to its end. Creating the \<^verbatim>\<open>WaxEventSource\<close>, the
  \<^verbatim>\<open>JsonRpc\<close> and the \<^verbatim>\<open>Api\<close> objects makes no call.
\<close>

definition initial :: "config \<Rightarrow> (string \<rightharpoonup> string) \<Rightarrow> waxjs" where
  "initial c store =
     \<lparr>userAccount = None, pubKeys = None, signingWindow = None, whitelistedContracts = None,
      apiSigner = c_apiSigner c,
      waxSigningURL = default_to ''https://all-access.wax.io'' (c_waxSigningURL c),
      waxAutoSigningURL =
        default_to ''https://api-idm.wax.io/v1/accounts/auto-accept/'' (c_waxAutoSigningURL c),
      api = False, localStorage = store, trace = []\<rparr>"

definition constructor :: "env \<Rightarrow> config \<Rightarrow> (string \<rightharpoonup> string) \<Rightarrow> waxjs" where
  "constructor ev c store =
     (let s = initial c store;
          auto = (if default_to True (tryAutoLogin c) then fst (loginViaEndpoint ev s) else s)
      in case c_userAccount c of
           None \<Rightarrow> auto
         | Some u \<Rightarrow>
             (case c_pubKeys c of
                None \<Rightarrow> auto
              | Some ks \<Rightarrow>
                  if u \<noteq> [] then
                    fst (receiveLogin s
                      \<lparr>d_type = None, d_verified = Some True, d_signatures = None,
                       d_serializedTransaction = None, d_whitelistedContracts = None,
                       d_userAccount = Some u, d_pubKeys = Some ks, d_autoLogin = None,
                       d_processed_except = False\<rparr>)
                  else auto))"

section \<open>Signing\<close>

definition signViaWindow ::
  "env \<Rightarrow> waxjs \<Rightarrow> window option \<Rightarrow> txArgs \<Rightarrow> waxjs \<times> (error + signing_result)" where
  "signViaWindow ev s win args =
     (let s1 = s\<lparr>trace := trace s @
                  [OpenEventSource (waxSigningURL s @ ''/cloud-wallet/signing/'') (Some args) win]\<rparr>
      in case openEventSource ev win of
           Inl e \<Rightarrow> (s1, Inl e)
         | Inr w \<Rightarrow> onceEvent ev receiveSignatures s1)"

text \<open>
  \<^verbatim>\<open>signViaEndpoint\<close>. Everything that is thrown or awaited inside the \<^verbatim>\<open>try\<close> block reaches
  the \<^verbatim>\<open>catch\<close>, which empties the whitelist and throws again. The promise of
  \<^verbatim>\<open>receiveSignatures\<close> is returned without \<^verbatim>\<open>await\<close>: when it rejects, the promise of
  \<^verbatim>\<open>signViaEndpoint\<close> rejects with it, and the \<^verbatim>\<open>catch\<close> block does not run.
\<close>

definition clear_whitelist :: "waxjs \<Rightarrow> waxjs" where
  "clear_whitelist s = s\<lparr>whitelistedContracts := Some []\<rparr>"

definition signViaEndpoint :: "env \<Rightarrow> waxjs \<Rightarrow> txArgs \<Rightarrow> waxjs \<times> (error + signing_result)" where
  "signViaEndpoint ev s args =
     (let s1 = s\<lparr>trace := trace s @ [Fetch (waxAutoSigningURL s @ ''signing'') (Some args)]\<rparr>
      in case fetch_signing ev of
           Inl e \<Rightarrow> (clear_whitelist s1, Inl e)
         | Inr r \<Rightarrow>
             if \<not> ok r then
               (clear_whitelist s1, Inl (SigningEndpointError (HttpStatus (status r))))
             else
               (case body r of
                  Inl e \<Rightarrow> (clear_whitelist s1, Inl e)
                | Inr d \<Rightarrow>
                    if d_processed_except d then
                      (clear_whitelist s1, Inl (SigningEndpointError ProcessedExcept))
                    else receiveSignatures s1 d))"

text \<open>\<^verbatim>\<open>signing\<close>: the endpoint first when every action is whitelisted, with the popup
  window (and no window handle) as the \<^verbatim>\<open>catch\<close> handler; the popup window with the
  handle \<^verbatim>\<open>this.signingWindow\<close> otherwise.\<close>

definition signing :: "env \<Rightarrow> waxjs \<Rightarrow> txArgs \<Rightarrow> waxjs \<times> (error + signing_result)" where
  "signing ev s args =
     (case canAutoSign ev s (transaction args) of
        Inl e \<Rightarrow> (s, Inl e)
      | Inr auto \<Rightarrow>
          if auto then
            (case signViaEndpoint ev s args of
               (s1, Inl e) \<Rightarrow> signViaWindow ev s1 None args
             | (s1, Inr r) \<Rightarrow> (s1, Inr r))
          else signViaWindow ev s (signingWindow s) args)"

section \<open>The signature provider\<close>

text \<open>\<^verbatim>\<open>getAvailableKeys\<close>: the spread of \<^verbatim>\<open>this.pubKeys\<close>, then the awaited keys of the
  co-signer when there is one.\<close>

definition getAvailableKeys :: "waxjs \<Rightarrow> error + string list" where
  "getAvailableKeys s =
     (case pubKeys s of
        None \<Rightarrow> Inl TypeError
      | Some ks \<Rightarrow>
          (case apiSigner s of
             None \<Rightarrow> Inr ks
           | Some c \<Rightarrow>
               (case sp_getAvailableKeys c of
                  Inl e \<Rightarrow> Inl e
                | Inr cs \<Rightarrow> Inr (ks @ cs))))"


section \<open>Auxiliary notions\<close>

text \<open>A failure of the signing endpoint that the \<^verbatim>\<open>catch\<close> block of \<^verbatim>\<open>signViaEndpoint\<close> sees,
  because it is thrown or awaited inside the \<^verbatim>\<open>try\<close> block: \<^verbatim>\<open>fetch\<close> throws, the status
  is not OK, reading the body throws, or the body has a \<^verbatim>\<open>processed.except\<close> field. An
  error thrown by \<^verbatim>\<open>receiveSignatures\<close> on the reply is not among them.\<close>

definition caught_failure :: "env \<Rightarrow> bool" where
  "caught_failure ev =
     (case fetch_signing ev of
        Inl e \<Rightarrow> True
      | Inr r \<Rightarrow> \<not> ok r \<or> (case body r of Inl e \<Rightarrow> True | Inr d \<Rightarrow> d_processed_except d))"


section \<open>Concrete inputs\<close>

definition token_entry :: "string list option \<Rightarrow> IWhitelistedContract" where
  "token_entry rs = \<lparr>contract = ''eosio.token'', recipients = rs\<rparr>"

definition transfer_to :: "string option \<Rightarrow> action" where
  "transfer_to t = \<lparr>account = ''eosio.token'', name = ''transfer'', data = Some \<lparr>to = t\<rparr>\<rparr>"

definition issue_action :: action where
  "issue_action = \<lparr>account = ''eosio.token'', name = ''issue'', data = None\<rparr>"

text \<open>A session after a login of \<^verbatim>\<open>alice\<close>, with a given whitelist and co-signer.\<close>

definition session_with :: "IWhitelistedContract list \<Rightarrow> signatureProvider option \<Rightarrow> waxjs" where
  "session_with wl cosigner =
     \<lparr>userAccount = Some ''alice'', pubKeys = Some [''PUB_K1''], signingWindow = None,
      whitelistedContracts = Some wl, apiSigner = cosigner,
      waxSigningURL = ''https://all-access.wax.io'',
      waxAutoSigningURL = ''https://api-idm.wax.io/v1/accounts/auto-accept/'',
      api = True, localStorage = Map.empty, trace = []\<rparr>"

definition message :: "string \<Rightarrow> payload" where
  "message t =
     \<lparr>d_type = Some t, d_verified = None, d_signatures = None, d_serializedTransaction = None,
      d_whitelistedContracts = None, d_userAccount = None, d_pubKeys = None, d_autoLogin = None,
      d_processed_except = False\<rparr>"

definition signed_message :: payload where
  "signed_message =
     (message ''TX_SIGNED'')\<lparr>d_verified := Some True, d_signatures := Some [''SIG1''],
        d_serializedTransaction := Some [1, 2, 3], d_whitelistedContracts := Some []\<rparr>"

definition login_message :: payload where
  "login_message =
     (message ''LOGIN'')\<lparr>d_verified := Some True, d_userAccount := Some ''alice'',
        d_pubKeys := Some [''PUB_K1'']\<rparr>"

text \<open>An environment whose endpoints are unreachable, whose deserializer finds no action,
  and whose popup window opens and delivers the given messages.\<close>

definition popup_env :: "payload list \<Rightarrow> env" where
  "popup_env msgs =
     \<lparr>deserializeTransactionWithActions = (\<lambda>bs. Inr []),
      fetch_login = Inl (Thrown ''offline''), fetch_signing = Inl (Thrown ''offline''),
      window_open = Inr 1, inbox = msgs\<rparr>"

definition example_args :: txArgs where
  "example_args = \<lparr>transaction = Serialized [7], waxPaysBW = True\<rparr>"

definition example_request :: signatureProviderArgs where
  "example_request = \<lparr>chainId = ''wax'', requiredKeys = [''PUB_K1''], serializedTransaction = Some [7]\<rparr>"

definition failing_cosigner :: signatureProvider where
  "failing_cosigner =
     \<lparr>sp_getAvailableKeys = Inl (Thrown ''co-signer unavailable''), sp_sign = (\<lambda>req. Inr [])\<rparr>"

definition example_cosigner :: signatureProvider where
  "example_cosigner =
     \<lparr>sp_getAvailableKeys = Inr [''PUB_K2''], sp_sign = (\<lambda>req. Inr [''SIG2''])\<rparr>"

definition example_config :: config where
  "example_config =
     \<lparr>rpcEndpoint = ''https://wax.greymass.com'', tryAutoLogin = None,
      c_userAccount = Some ''alice'', c_pubKeys = Some [''PUB_K1''], c_apiSigner = None,
      c_waxSigningURL = None, c_waxAutoSigningURL = None\<rparr>"

text \<open>A message of type \<^verbatim>\<open>TX_SIGNED\<close> that is not verified, and an environment in which the
  transaction holds one transfer to \<^verbatim>\<open>bob\<close>, the signing endpoint answers with status 200
  and that message, and the popup window delivers that message too.\<close>

definition declined_message :: payload where
  "declined_message = (message ''TX_SIGNED'')\<lparr>d_verified := Some False\<rparr>"

definition declining_env :: env where
  "declining_env =
     \<lparr>deserializeTransactionWithActions = (\<lambda>bs. Inr [transfer_to (Some ''bob'')]),
      fetch_login = Inl (Thrown ''offline''),
      fetch_signing = Inr \<lparr>ok = True, status = 200, body = Inr declined_message\<rparr>,
      window_open = Inr 1, inbox = [declined_message]\<rparr>"

lemmas example_defs =
  token_entry_def transfer_to_def issue_action_def session_with_def message_def
  signed_message_def login_message_def popup_env_def example_args_def example_request_def
  failing_cosigner_def example_cosigner_def example_config_def

section \<open>Properties of the search\<close>

lemma array_find_Some: "array_find p xs = Inr (Some x) \<Longrightarrow> x \<in> set xs \<and> p x = Inr True"
  by (induction xs) (auto split: sum.splits if_splits)

lemma array_find_None: "array_find p xs = Inr None \<longleftrightarrow> (\<forall>x\<in>set xs. p x = Inr False)"
  by (induction xs) (auto split: sum.splits if_splits)

lemma array_find_total:
  "(\<And>x. x \<in> set xs \<Longrightarrow> p x = Inr (q x)) \<Longrightarrow> array_find p xs = Inr (List.find q xs)"
  by (induction xs) auto

lemma whitelist_callback_spec:
  "whitelist_callback a w = Inr b \<Longrightarrow>
     b = (contract w = account a \<and> (is_token_transfer a \<longrightarrow> lists_recipient w a))"
  by (auto simp: whitelist_callback_def is_token_transfer_def lists_recipient_def
      split: if_splits option.splits)

lemma whitelist_callback_other:
  "\<not> is_token_transfer a \<Longrightarrow> whitelist_callback a w = Inr (contract w = account a)"
  by (auto simp: whitelist_callback_def is_token_transfer_def)

lemma isWhitelisted_returns:
  assumes "whitelistedContracts s = Some wl" and "isWhitelisted s a = Inr b"
  shows "b = spec_isWhitelisted wl a"
proof (cases "array_find (whitelist_callback a) wl")
  case (Inl e)
  with assms show ?thesis by (simp add: isWhitelisted_def)
next
  case (Inr r)
  show ?thesis
  proof (cases r)
    case None
    with Inr have "\<forall>w\<in>set wl. whitelist_callback a w = Inr False"
      by (simp add: array_find_None)
    then have "\<not> spec_isWhitelisted wl a"
      unfolding spec_isWhitelisted_def by (auto dest: whitelist_callback_spec)
    with assms Inr None show ?thesis by (simp add: isWhitelisted_def)
  next
    case (Some w)
    with Inr have "w \<in> set wl" and "whitelist_callback a w = Inr True"
      by (auto dest: array_find_Some)
    then have "spec_isWhitelisted wl a"
      unfolding spec_isWhitelisted_def by (auto dest: whitelist_callback_spec)
    with assms Inr Some show ?thesis by (simp add: isWhitelisted_def)
  qed
qed

lemma array_find_Some_split:
  "array_find p xs = Inr (Some x) \<Longrightarrow>
     \<exists>pre post. xs = pre @ x # post \<and> (\<forall>y\<in>set pre. p y = Inr False) \<and> p x = Inr True"
proof (induction xs)
  case Nil
  then show ?case by simp
next
  case (Cons z zs)
  show ?case
  proof (cases "p z")
    case (Inl e)
    with Cons.prems show ?thesis by simp
  next
    case (Inr b)
    show ?thesis
    proof (cases b)
      case True
      with Inr Cons.prems have "z = x" by simp
      with Inr True have "z # zs = [] @ x # zs \<and> (\<forall>y\<in>set []. p y = Inr False) \<and> p x = Inr True"
        by simp
      then show ?thesis by blast
    next
      case False
      with Inr Cons.prems have "array_find p zs = Inr (Some x)" by simp
      then obtain pre post where "zs = pre @ x # post" "\<forall>y\<in>set pre. p y = Inr False" "p x = Inr True"
        using Cons.IH by blast
      with Inr False have "z # zs = (z # pre) @ x # post \<and> (\<forall>y\<in>set (z # pre). p y = Inr False)
          \<and> p x = Inr True"
        by simp
      then show ?thesis by blast
    qed
  qed
qed

lemma array_find_reaches:
  assumes "p x = Inr True" and "\<forall>y\<in>set pre. \<exists>b. p y = Inr b"
  shows "\<exists>z. array_find p (pre @ x # post) = Inr (Some z)"
  using assms(2)
proof (induction pre)
  case Nil
  with assms(1) show ?case by simp
next
  case (Cons y pre)
  then obtain b where "p y = Inr b" by auto
  with Cons show ?case by (cases b) auto
qed

lemma array_find_returns:
  "\<forall>x\<in>set xs. \<exists>b. p x = Inr b \<Longrightarrow> \<exists>r. array_find p xs = Inr r"
  by (induction xs) auto

lemma array_find_Inl: "array_find p xs = Inl e \<Longrightarrow> \<exists>x\<in>set xs. p x = Inl e"
  by (induction xs) (auto split: sum.splits if_splits)

lemma whitelist_callback_error: "whitelist_callback a w = Inl e \<Longrightarrow> e = TypeError"
  by (auto simp: whitelist_callback_def split: if_splits option.splits)

lemma isWhitelisted_error: "isWhitelisted s a = Inl e \<Longrightarrow> e = TypeError"
proof (cases "whitelistedContracts s")
  case None
  assume "isWhitelisted s a = Inl e"
  with None show ?thesis by (simp add: isWhitelisted_def)
next
  case (Some wl)
  assume "isWhitelisted s a = Inl e"
  with Some have "array_find (whitelist_callback a) wl = Inl e"
    by (simp add: isWhitelisted_def split: sum.splits)
  then obtain w where "whitelist_callback a w = Inl e"
    using array_find_Inl by blast
  then show ?thesis by (rule whitelist_callback_error)
qed

lemma whitelist_callback_returns:
  assumes "is_token_transfer a \<longrightarrow> data a \<noteq> None"
    and "contract w = ''eosio.token'' \<longrightarrow> recipients w \<noteq> None"
  shows "\<exists>b. whitelist_callback a w = Inr b"
  using assms
  by (auto simp: whitelist_callback_def is_token_transfer_def split: option.splits)

lemma callback_False_recipients:
  assumes "whitelist_callback a x = Inr False" and "is_token_transfer a"
    and "contract x = ''eosio.token''"
  shows "recipients x \<noteq> None"
proof
  assume "recipients x = None"
  with assms(2,3) have "whitelist_callback a x = Inl TypeError"
    by (simp add: whitelist_callback_def is_token_transfer_def)
  with assms(1) show False by simp
qed

lemma callback_True:
  assumes "contract w = account a" and "is_token_transfer a \<longrightarrow> lists_recipient w a"
  shows "whitelist_callback a w = Inr True"
proof (cases "is_token_transfer a")
  case False
  with assms(1) show ?thesis by (simp add: whitelist_callback_other)
next
  case True
  with assms(2) have l: "lists_recipient w a" by simp
  then obtain rs where rs: "recipients w = Some rs"
    by (cases "recipients w") (simp_all add: lists_recipient_def)
  with l obtain d where d: "data a = Some d"
    by (cases "data a") (simp_all add: lists_recipient_def)
  with l rs have "array_includes rs (to d)"
    by (simp add: lists_recipient_def)
  with rs d True assms(1) show ?thesis
    by (simp add: whitelist_callback_def is_token_transfer_def)
qed

lemma lists_recipient_data: "lists_recipient w a \<Longrightarrow> data a \<noteq> None"
  by (cases "recipients w"; cases "data a") (simp_all add: lists_recipient_def)

lemma isWhitelisted_True_iff:
  assumes "whitelistedContracts s = Some wl"
  shows "isWhitelisted s a = Inr True \<longleftrightarrow>
     (\<exists>pre w post. wl = pre @ w # post \<and> contract w = account a
        \<and> (is_token_transfer a \<longrightarrow>
             lists_recipient w a
           \<and> (\<forall>x\<in>set pre. contract x = ''eosio.token'' \<longrightarrow> recipients x \<noteq> None)))"
    (is "?L \<longleftrightarrow> ?R")
proof
  assume l: ?L
  have "\<exists>w. array_find (whitelist_callback a) wl = Inr (Some w)"
  proof (cases "array_find (whitelist_callback a) wl")
    case (Inl e)
    with assms l show ?thesis by (simp add: isWhitelisted_def)
  next
    case (Inr r)
    with assms l show ?thesis by (cases r) (simp_all add: isWhitelisted_def)
  qed
  then obtain w where "array_find (whitelist_callback a) wl = Inr (Some w)" ..
  then obtain pre post where sp: "wl = pre @ w # post"
    and pre: "\<forall>y\<in>set pre. whitelist_callback a y = Inr False"
    and w: "whitelist_callback a w = Inr True"
    using array_find_Some_split [of "whitelist_callback a" wl w] by blast
  from w have "True = (contract w = account a \<and> (is_token_transfer a \<longrightarrow> lists_recipient w a))"
    by (rule whitelist_callback_spec)
  then have cw: "contract w = account a" and lw: "is_token_transfer a \<longrightarrow> lists_recipient w a"
    by simp_all
  have "is_token_transfer a \<longrightarrow>
          (\<forall>x\<in>set pre. contract x = ''eosio.token'' \<longrightarrow> recipients x \<noteq> None)"
    using pre callback_False_recipients by blast
  with lw have "is_token_transfer a \<longrightarrow>
             lists_recipient w a
           \<and> (\<forall>x\<in>set pre. contract x = ''eosio.token'' \<longrightarrow> recipients x \<noteq> None)"
    by simp
  with sp cw show ?R by (intro exI [of _ pre] exI [of _ w] exI [of _ post]) simp
next
  assume ?R
  then obtain pre w post where sp: "wl = pre @ w # post" and cw: "contract w = account a"
    and t: "is_token_transfer a \<longrightarrow>
             lists_recipient w a
           \<and> (\<forall>x\<in>set pre. contract x = ''eosio.token'' \<longrightarrow> recipients x \<noteq> None)"
    by blast
  from cw t have w: "whitelist_callback a w = Inr True"
    by (intro callback_True) simp_all
  have "\<forall>y\<in>set pre. \<exists>b. whitelist_callback a y = Inr b"
  proof
    fix y assume y: "y \<in> set pre"
    show "\<exists>b. whitelist_callback a y = Inr b"
    proof (cases "is_token_transfer a")
      case False
      then show ?thesis by (simp add: whitelist_callback_other)
    next
      case True
      with t y have "contract y = ''eosio.token'' \<longrightarrow> recipients y \<noteq> None" by simp
      moreover from True t have "lists_recipient w a" by simp
      then have "is_token_transfer a \<longrightarrow> data a \<noteq> None"
        using lists_recipient_data by blast
      ultimately show ?thesis by (intro whitelist_callback_returns)
    qed
  qed
  with w obtain z where "array_find (whitelist_callback a) (pre @ w # post) = Inr (Some z)"
    using array_find_reaches [of "whitelist_callback a" w pre post] by blast
  with assms sp show ?L by (simp add: isWhitelisted_def)
qed

lemma isWhitelisted_well_formed:
  assumes "whitelistedContracts s = Some wl"
    and "\<forall>w\<in>set wl. contract w = ''eosio.token'' \<longrightarrow> recipients w \<noteq> None"
    and "is_token_transfer a \<longrightarrow> data a \<noteq> None"
  shows "isWhitelisted s a = Inr (spec_isWhitelisted wl a)"
proof -
  have "\<forall>w\<in>set wl. \<exists>b. whitelist_callback a w = Inr b"
  proof
    fix w assume "w \<in> set wl"
    with assms(2) have "contract w = ''eosio.token'' \<longrightarrow> recipients w \<noteq> None" by simp
    with assms(3) show "\<exists>b. whitelist_callback a w = Inr b"
      by (intro whitelist_callback_returns)
  qed
  then obtain r where "array_find (whitelist_callback a) wl = Inr r"
    using array_find_returns [of wl "whitelist_callback a"] by blast
  with assms(1) have "isWhitelisted s a = Inr (r \<noteq> None)"
    by (simp add: isWhitelisted_def)
  with assms(1) show ?thesis
    by (simp add: isWhitelisted_returns [OF assms(1)])
qed

lemma isWhitelisted_other:
  assumes "whitelistedContracts s = Some wl" and "\<not> is_token_transfer a"
  shows "isWhitelisted s a = Inr (\<exists>w\<in>set wl. contract w = account a)"
proof -
  have "array_find (whitelist_callback a) wl = Inr (List.find (\<lambda>w. contract w = account a) wl)"
    using assms(2) by (intro array_find_total) (simp add: whitelist_callback_other)
  then show ?thesis
    using assms(1) by (auto simp: isWhitelisted_def find_None_iff)
qed

lemma not_whitelisted_False:
  "not_whitelisted s a = Inr False \<longleftrightarrow> isWhitelisted s a = Inr True"
  by (auto simp: not_whitelisted_def split: sum.splits)

lemma throws_before:
  assumes "is_token_transfer a" and "contract w = ''eosio.token''" and "recipients w = None"
    and "\<forall>w'\<in>set pre. \<not> lists_recipient w' a"
  shows "array_find (whitelist_callback a) (pre @ w # post) = Inl TypeError"
  using assms(4)
proof (induction pre)
  case Nil
  from assms(1-3) show ?case
    by (simp add: whitelist_callback_def is_token_transfer_def)
next
  case (Cons x pre)
  then have nl: "\<not> lists_recipient x a" by simp
  show ?case
  proof (cases "whitelist_callback a x")
    case (Inl e)
    then have "e = TypeError"
      by (auto simp: whitelist_callback_def split: if_splits option.splits)
    with Inl show ?thesis by simp
  next
    case (Inr b)
    with nl assms(1) have "\<not> b"
      by (auto dest: whitelist_callback_spec)
    with Inr Cons show ?thesis by simp
  qed
qed

lemma never_false:
  assumes "is_token_transfer a" and "contract w = ''eosio.token''" and "recipients w = None"
    and "w \<in> set wl"
  shows "array_find (whitelist_callback a) wl \<noteq> Inr None"
proof
  assume "array_find (whitelist_callback a) wl = Inr None"
  with assms(4) have "whitelist_callback a w = Inr False"
    by (simp add: array_find_None)
  with assms(1-3) show False
    by (simp add: whitelist_callback_def is_token_transfer_def)
qed

section \<open>The whitelist evaluator\<close>

text \<open>
  C1 (amended). For every action and whitelist, \<open>isWhitelisted\<close> returns true iff some entry's
  contract equals \<^verbatim>\<open>action.account\<close> and, when the action is a transfer of \<^verbatim>\<open>eosio.token\<close>,
  that entry lists \<^verbatim>\<open>action.data.to\<close> in its recipients and no \<^verbatim>\<open>eosio.token\<close> entry that
  stands before it lacks recipients (the search throws at such an entry). For every other
  contract and name \<open>isWhitelisted\<close> always returns, and a contract match alone suffices,
  whatever \<^verbatim>\<open>action.data\<close> is. On a whitelist whose \<^verbatim>\<open>eosio.token\<close> entries all have recipients,
  and a transfer that carries data, \<open>isWhitelisted\<close> returns the truth value of the rule:
  some entry's contract equals \<^verbatim>\<open>action.account\<close> and, for a transfer of \<^verbatim>\<open>eosio.token\<close>,
  lists \<^verbatim>\<open>action.data.to\<close>. The same holds whenever \<open>isWhitelisted\<close> does not throw.
\<close>

theorem isWhitelisted_spec:
  assumes "whitelistedContracts s = Some wl"
  shows "(isWhitelisted s a = Inr True \<longleftrightarrow>
            (\<exists>pre w post. wl = pre @ w # post \<and> contract w = account a
               \<and> (is_token_transfer a \<longrightarrow>
                    lists_recipient w a
                  \<and> (\<forall>x\<in>set pre. contract x = ''eosio.token'' \<longrightarrow> recipients x \<noteq> None))))
       \<and> (\<not> is_token_transfer a \<longrightarrow>
            isWhitelisted s a = Inr (\<exists>w\<in>set wl. contract w = account a))
       \<and> ((\<forall>w\<in>set wl. contract w = ''eosio.token'' \<longrightarrow> recipients w \<noteq> None)
            \<and> (is_token_transfer a \<longrightarrow> data a \<noteq> None) \<longrightarrow>
            isWhitelisted s a = Inr (spec_isWhitelisted wl a))
       \<and> ((\<forall>e. isWhitelisted s a \<noteq> Inl e) \<longrightarrow>
            isWhitelisted s a = Inr (spec_isWhitelisted wl a))"
proof (intro conjI impI)
  show "isWhitelisted s a = Inr True \<longleftrightarrow>
            (\<exists>pre w post. wl = pre @ w # post \<and> contract w = account a
               \<and> (is_token_transfer a \<longrightarrow>
                    lists_recipient w a
                  \<and> (\<forall>x\<in>set pre. contract x = ''eosio.token'' \<longrightarrow> recipients x \<noteq> None)))"
    using assms by (rule isWhitelisted_True_iff)
next
  assume "\<not> is_token_transfer a"
  with assms show "isWhitelisted s a = Inr (\<exists>w\<in>set wl. contract w = account a)"
    by (rule isWhitelisted_other)
next
  assume "(\<forall>w\<in>set wl. contract w = ''eosio.token'' \<longrightarrow> recipients w \<noteq> None)
            \<and> (is_token_transfer a \<longrightarrow> data a \<noteq> None)"
  with assms show "isWhitelisted s a = Inr (spec_isWhitelisted wl a)"
    by (intro isWhitelisted_well_formed) simp_all
next
  assume "\<forall>e. isWhitelisted s a \<noteq> Inl e"
  then obtain b where b: "isWhitelisted s a = Inr b"
    by (cases "isWhitelisted s a") auto
  with assms have "b = spec_isWhitelisted wl a"
    by (rule isWhitelisted_returns)
  with b show "isWhitelisted s a = Inr (spec_isWhitelisted wl a)"
    by simp
qed

text \<open>The theorem at an \<^verbatim>\<open>issue\<close> action without data; at a transfer to a recipient that
  the only entry lists; and at a transfer to a recipient listed by the second entry of a
  whitelist whose last entry has no recipients.\<close>

theorem isWhitelisted_spec_witness:
  "whitelistedContracts (session_with [token_entry None] None) = Some [token_entry None]
   \<and> \<not> is_token_transfer issue_action
   \<and> isWhitelisted (session_with [token_entry None] None) issue_action = Inr True
   \<and> data (transfer_to (Some ''bob'')) \<noteq> None
   \<and> isWhitelisted (session_with [token_entry (Some [''bob''])] None) (transfer_to (Some ''bob''))
       = Inr True
   \<and> isWhitelisted (session_with [token_entry (Some [''bob''])] None) (transfer_to (Some ''carol''))
       = Inr False
   \<and> isWhitelisted
        (session_with [token_entry (Some [''carol'']), token_entry (Some [''bob'']), token_entry None]
           None)
        (transfer_to (Some ''bob'')) = Inr True"
proof -
  have w: "\<And>wl. whitelistedContracts (session_with wl None) = Some wl"
    by (simp add: session_with_def)
  have i: "\<not> is_token_transfer issue_action"
    by (simp add: is_token_transfer_def issue_action_def)
  have d: "\<And>t. data (transfer_to t) \<noteq> None"
    by (simp add: transfer_to_def)
  have wf: "\<forall>w\<in>set [token_entry (Some [''bob''])].
              contract w = ''eosio.token'' \<longrightarrow> recipients w \<noteq> None"
    by (simp add: token_entry_def)
  have sb: "spec_isWhitelisted [token_entry (Some [''bob''])] (transfer_to (Some ''bob''))"
    and sc: "\<not> spec_isWhitelisted [token_entry (Some [''bob''])] (transfer_to (Some ''carol''))"
    by (simp_all add: spec_isWhitelisted_def is_token_transfer_def lists_recipient_def
        array_includes_def example_defs)
  have split: "[token_entry (Some [''carol'']), token_entry (Some [''bob'']), token_entry None]
                 = [token_entry (Some [''carol''])] @ token_entry (Some [''bob'']) # [token_entry None]
               \<and> contract (token_entry (Some [''bob''])) = account (transfer_to (Some ''bob''))
               \<and> (is_token_transfer (transfer_to (Some ''bob'')) \<longrightarrow>
                    lists_recipient (token_entry (Some [''bob''])) (transfer_to (Some ''bob''))
                  \<and> (\<forall>x\<in>set [token_entry (Some [''carol''])].
                        contract x = ''eosio.token'' \<longrightarrow> recipients x \<noteq> None))"
    by (simp add: lists_recipient_def array_includes_def example_defs)
  have p: "\<And>t. (\<forall>w\<in>set [token_entry (Some [''bob''])].
                 contract w = ''eosio.token'' \<longrightarrow> recipients w \<noteq> None)
               \<and> (is_token_transfer (transfer_to t) \<longrightarrow> data (transfer_to t) \<noteq> None)"
    using wf d by simp
  note th = isWhitelisted_spec [OF w]
  have "isWhitelisted (session_with [token_entry None] None) issue_action
          = Inr (\<exists>w\<in>set [token_entry None]. contract w = account issue_action)"
    using th [where a = issue_action and wl = "[token_entry None]",
        THEN conjunct2, THEN conjunct1] i
    by (rule mp)
  then have 1: "isWhitelisted (session_with [token_entry None] None) issue_action = Inr True"
    by (simp add: token_entry_def issue_action_def)
  have "isWhitelisted (session_with [token_entry (Some [''bob''])] None) (transfer_to (Some ''bob''))
          = Inr (spec_isWhitelisted [token_entry (Some [''bob''])] (transfer_to (Some ''bob'')))"
    using th [where a = "transfer_to (Some ''bob'')" and wl = "[token_entry (Some [''bob''])]",
        THEN conjunct2, THEN conjunct2, THEN conjunct1] p [of "Some ''bob''"]
    by (rule mp)
  with sb have 2: "isWhitelisted (session_with [token_entry (Some [''bob''])] None)
             (transfer_to (Some ''bob'')) = Inr True"
    by simp
  have "isWhitelisted (session_with [token_entry (Some [''bob''])] None) (transfer_to (Some ''carol''))
          = Inr (spec_isWhitelisted [token_entry (Some [''bob''])] (transfer_to (Some ''carol'')))"
    using th [where a = "transfer_to (Some ''carol'')" and wl = "[token_entry (Some [''bob''])]",
        THEN conjunct2, THEN conjunct2, THEN conjunct1] p [of "Some ''carol''"]
    by (rule mp)
  with sc have 3: "isWhitelisted (session_with [token_entry (Some [''bob''])] None)
             (transfer_to (Some ''carol'')) = Inr False"
    by simp
  have 4: "isWhitelisted
        (session_with [token_entry (Some [''carol'']), token_entry (Some [''bob'']), token_entry None]
           None)
        (transfer_to (Some ''bob'')) = Inr True"
    by (rule th [where a = "transfer_to (Some ''bob'')"
          and wl = "[token_entry (Some [''carol'']), token_entry (Some [''bob'']), token_entry None]",
          THEN conjunct1, THEN iffD2])
      (intro exI [of _ "[token_entry (Some [''carol''])]"] exI [of _ "token_entry (Some [''bob''])"]
        exI [of _ "[token_entry None]"], rule split)
  show ?thesis
    using w [of "[token_entry None]"] i d [of "Some ''bob''"] 1 2 3 4
    by (intro conjI)
qed

text \<open>The claim as first stated fails where an entry without recipients stands before
  the entry that lists the recipient: the search throws at the first entry.\<close>

theorem isWhitelisted_spec_counterexample:
  "\<not> (isWhitelisted (session_with [token_entry None, token_entry (Some [''bob''])] None)
         (transfer_to (Some ''bob'')) = Inr True
       \<longleftrightarrow> spec_isWhitelisted [token_entry None, token_entry (Some [''bob''])]
             (transfer_to (Some ''bob'')))"
  by (simp add: isWhitelisted_def whitelist_callback_def array_includes_def
      spec_isWhitelisted_def is_token_transfer_def lists_recipient_def example_defs)

text \<open>
  C2. For a transaction that already carries its actions, \<open>canAutoSign\<close> returns true iff
  \<open>isWhitelisted\<close> returns true on every action; on an empty list of actions it returns
  true in every session, whatever the whitelist is.
\<close>

theorem canAutoSign_every_action:
  "(canAutoSign ev s (Deserialized acts) = Inr True
      \<longleftrightarrow> (\<forall>a\<in>set acts. isWhitelisted s a = Inr True))
   \<and> canAutoSign ev s (Deserialized []) = Inr True"
proof -
  have "array_find (not_whitelisted s) acts = Inr None
          \<longleftrightarrow> (\<forall>a\<in>set acts. isWhitelisted s a = Inr True)"
    by (simp add: array_find_None not_whitelisted_False)
  then show ?thesis
    by (auto simp: canAutoSign_def split: sum.splits)
qed

theorem canAutoSign_every_action_witness:
  "isWhitelisted (session_with [token_entry (Some [''bob''])] None) (transfer_to (Some ''bob''))
     = Inr True
   \<and> canAutoSign (popup_env []) (session_with [token_entry (Some [''bob''])] None)
       (Deserialized [transfer_to (Some ''bob'')]) = Inr True
   \<and> canAutoSign (popup_env []) (session_with [] None) (Deserialized []) = Inr True"
proof -
  have h: "isWhitelisted (session_with [token_entry (Some [''bob''])] None)
             (transfer_to (Some ''bob'')) = Inr True"
    by (simp add: isWhitelisted_def whitelist_callback_def array_includes_def example_defs)
  from h canAutoSign_every_action [of "popup_env []"
      "session_with [token_entry (Some [''bob''])] None" "[transfer_to (Some ''bob'')]"]
  have "canAutoSign (popup_env []) (session_with [token_entry (Some [''bob''])] None)
       (Deserialized [transfer_to (Some ''bob'')]) = Inr True"
    by simp
  with h canAutoSign_every_action [of "popup_env []" "session_with [] None" "[]"]
  show ?thesis by blast
qed

text \<open>
  C10 (amended). When some whitelist entry with contract \<^verbatim>\<open>eosio.token\<close> has no recipients,
  \<open>isWhitelisted\<close> is not total: some action makes it throw. For every transfer of
  \<^verbatim>\<open>eosio.token\<close> it then never returns false: it returns true when some \<^verbatim>\<open>eosio.token\<close>
  entry lists \<^verbatim>\<open>action.data.to\<close> and no \<^verbatim>\<open>eosio.token\<close> entry that stands before that entry
  lacks recipients, and it throws a TypeError in every other case; so it throws whenever
  no entry before the one without recipients lists \<^verbatim>\<open>action.data.to\<close>.
\<close>

theorem isWhitelisted_undefined_recipients:
  assumes "whitelistedContracts s = Some (pre @ w # post)"
    and "contract w = ''eosio.token''" and "recipients w = None"
  shows "\<not> (\<forall>a. \<exists>b. isWhitelisted s a = Inr b)
       \<and> (is_token_transfer a \<longrightarrow>
            isWhitelisted s a \<noteq> Inr False
          \<and> ((\<forall>w'\<in>set pre. \<not> lists_recipient w' a) \<longrightarrow> isWhitelisted s a = Inl TypeError)
          \<and> isWhitelisted s a =
              (if \<exists>p v q. pre @ w # post = p @ v # q \<and> contract v = ''eosio.token''
                    \<and> lists_recipient v a
                    \<and> (\<forall>x\<in>set p. contract x = ''eosio.token'' \<longrightarrow> recipients x \<noteq> None)
               then Inr True else Inl TypeError))"
proof (intro conjI impI)
  let ?a = "\<lparr>account = ''eosio.token'', name = ''transfer'', data = None\<rparr>"
  have "array_find (whitelist_callback ?a) (pre @ w # post) = Inl TypeError"
    using assms(2,3)
    by (intro throws_before)
      (auto simp: is_token_transfer_def lists_recipient_def split: option.splits)
  with assms(1) have "isWhitelisted s ?a = Inl TypeError"
    by (simp add: isWhitelisted_def)
  then show "\<not> (\<forall>a. \<exists>b. isWhitelisted s a = Inr b)"
    by (metis sum.distinct(1))
next
  assume "is_token_transfer a"
  with assms(2,3) have "array_find (whitelist_callback a) (pre @ w # post) \<noteq> Inr None"
    by (intro never_false [of a w]) simp_all
  with assms(1) show "isWhitelisted s a \<noteq> Inr False"
    by (auto simp: isWhitelisted_def split: sum.splits)
next
  assume "is_token_transfer a" and "\<forall>w'\<in>set pre. \<not> lists_recipient w' a"
  with assms(2,3) have "array_find (whitelist_callback a) (pre @ w # post) = Inl TypeError"
    by (intro throws_before)
  with assms(1) show "isWhitelisted s a = Inl TypeError"
    by (simp add: isWhitelisted_def)
next
  assume t: "is_token_transfer a"
  let ?C = "\<exists>p v q. pre @ w # post = p @ v # q \<and> contract v = ''eosio.token''
                    \<and> lists_recipient v a
                    \<and> (\<forall>x\<in>set p. contract x = ''eosio.token'' \<longrightarrow> recipients x \<noteq> None)"
  from t have acc: "account a = ''eosio.token''"
    by (simp add: is_token_transfer_def)
  have iff: "isWhitelisted s a = Inr True \<longleftrightarrow> ?C"
    using isWhitelisted_True_iff [OF assms(1), of a] t acc by simp
  show "isWhitelisted s a = (if ?C then Inr True else Inl TypeError)"
  proof (cases ?C)
    case True
    with iff show ?thesis by simp
  next
    case False
    with iff have nt: "isWhitelisted s a \<noteq> Inr True" by simp
    from t assms(2,3) have "array_find (whitelist_callback a) (pre @ w # post) \<noteq> Inr None"
      by (intro never_false [of a w]) simp_all
    with assms(1) have nf: "isWhitelisted s a \<noteq> Inr False"
      by (auto simp: isWhitelisted_def split: sum.splits)
    from nt nf obtain e where e: "isWhitelisted s a = Inl e"
      by (cases "isWhitelisted s a") auto
    then have "e = TypeError" by (rule isWhitelisted_error)
    with e False show ?thesis by simp
  qed
qed

text \<open>The theorem at a transfer to \<^verbatim>\<open>carol\<close>, whom the entry before the one without
  recipients does not list, and at a transfer to \<^verbatim>\<open>bob\<close> where the first entry has no
  recipients and the second lists him.\<close>

theorem isWhitelisted_undefined_recipients_witness:
  "whitelistedContracts (session_with [token_entry (Some [''bob'']), token_entry None] None)
     = Some ([token_entry (Some [''bob''])] @ token_entry None # [])
   \<and> contract (token_entry None) = ''eosio.token''
   \<and> recipients (token_entry None) = None
   \<and> is_token_transfer (transfer_to (Some ''carol''))
   \<and> \<not> lists_recipient (token_entry (Some [''bob''])) (transfer_to (Some ''carol''))
   \<and> isWhitelisted (session_with [token_entry (Some [''bob'']), token_entry None] None)
       (transfer_to (Some ''carol'')) = Inl TypeError
   \<and> isWhitelisted
        (session_with [token_entry None, token_entry (Some [''bob'']), token_entry None] None)
        (transfer_to (Some ''bob'')) = Inl TypeError"
proof -
  have h1: "whitelistedContracts (session_with [token_entry (Some [''bob'']), token_entry None] None)
     = Some ([token_entry (Some [''bob''])] @ token_entry None # [])"
    by (simp add: session_with_def)
  have h2: "contract (token_entry None) = ''eosio.token''"
    and h3: "recipients (token_entry None) = None"
    by (simp_all add: token_entry_def)
  have h4: "\<And>t. is_token_transfer (transfer_to t)"
    by (simp add: is_token_transfer_def transfer_to_def)
  have h5: "\<not> lists_recipient (token_entry (Some [''bob''])) (transfer_to (Some ''carol''))"
    by (simp add: lists_recipient_def array_includes_def example_defs)
  from isWhitelisted_undefined_recipients [OF h1 h2 h3, of "transfer_to (Some ''carol'')"] h4 h5
  have 1: "isWhitelisted (session_with [token_entry (Some [''bob'']), token_entry None] None)
       (transfer_to (Some ''carol'')) = Inl TypeError"
    by simp
  have g1: "whitelistedContracts
        (session_with [token_entry None, token_entry (Some [''bob'']), token_entry None] None)
      = Some ([] @ token_entry None # [token_entry (Some [''bob'']), token_entry None])"
    by (simp add: session_with_def)
  from isWhitelisted_undefined_recipients [OF g1 h2 h3, of "transfer_to (Some ''bob'')"] h4
  have 2: "isWhitelisted
        (session_with [token_entry None, token_entry (Some [''bob'']), token_entry None] None)
        (transfer_to (Some ''bob'')) = Inl TypeError"
    by simp
  from h1 h2 h3 h4 h5 1 2 show ?thesis by blast
qed

text \<open>The claim as first stated fails where an earlier entry lists the recipient: the
  transfer has a matching entry without recipients, and \<open>isWhitelisted\<close> returns true.\<close>

theorem isWhitelisted_undefined_recipients_counterexample:
  "contract (token_entry None) = account (transfer_to (Some ''bob''))
   \<and> recipients (token_entry None) = None
   \<and> isWhitelisted (session_with [token_entry (Some [''bob'']), token_entry None] None)
       (transfer_to (Some ''bob'')) = Inr True"
  by (simp add: isWhitelisted_def whitelist_callback_def array_includes_def example_defs)

section \<open>Properties of the signing paths\<close>

lemma receiveSignatures_keeps:
  "trace (fst (receiveSignatures s d)) = trace s"
  "apiSigner (fst (receiveSignatures s d)) = apiSigner s"
  "waxSigningURL (fst (receiveSignatures s d)) = waxSigningURL s"
  by (auto simp: receiveSignatures_def Let_def split: option.splits)

lemma signViaWindow_keeps:
  "trace (fst (signViaWindow ev s win args)) =
     trace s @ [OpenEventSource (waxSigningURL s @ ''/cloud-wallet/signing/'') (Some args) win]"
  "apiSigner (fst (signViaWindow ev s win args)) = apiSigner s"
  by (auto simp: signViaWindow_def onceEvent_def Let_def receiveSignatures_keeps
      split: sum.splits list.splits)

lemma signViaEndpoint_keeps:
  "trace (fst (signViaEndpoint ev s args)) =
     trace s @ [Fetch (waxAutoSigningURL s @ ''signing'') (Some args)]"
  "apiSigner (fst (signViaEndpoint ev s args)) = apiSigner s"
  "waxSigningURL (fst (signViaEndpoint ev s args)) = waxSigningURL s"
  by (auto simp: signViaEndpoint_def Let_def clear_whitelist_def receiveSignatures_keeps
      split: sum.splits)

text \<open>A reply with status OK whose message the handler rejects is not a failure that
  the \<^verbatim>\<open>catch\<close> block of \<^verbatim>\<open>signViaEndpoint\<close> sees: the promise rejects in the state
  that the handler left, and the whitelist is not emptied.\<close>

lemma signViaEndpoint_handler_rejects:
  assumes "fetch_signing ev = Inr r" and "ok r" and "body r = Inr d"
    and "\<not> d_processed_except d" and "receiveSignatures s1 d = (s2, Inl e)"
    and "s1 = s\<lparr>trace := trace s @ [Fetch (waxAutoSigningURL s @ ''signing'') (Some args)]\<rparr>"
  shows "signViaEndpoint ev s args = (s2, Inl e)"
  using assms by (simp add: signViaEndpoint_def Let_def)



lemma signViaEndpoint_caught:
  assumes "caught_failure ev"
  shows "\<exists>e. signViaEndpoint ev s args =
           (s\<lparr>trace := trace s @ [Fetch (waxAutoSigningURL s @ ''signing'') (Some args)],
              whitelistedContracts := Some []\<rparr>, Inl e)"
  using assms
  by (auto simp: caught_failure_def signViaEndpoint_def clear_whitelist_def Let_def
      split: sum.splits)

text \<open>Whenever the promise of \<^verbatim>\<open>signViaEndpoint\<close> rejects, \<open>signing\<close> is one run of the popup
  window flow with no window handle, started in the state that \<^verbatim>\<open>signViaEndpoint\<close> left.\<close>

lemma signing_fallback:
  assumes "canAutoSign ev s (transaction args) = Inr True"
    and "signViaEndpoint ev s args = (s1, Inl e)"
  shows "signing ev s args = signViaWindow ev s1 None args"
    and "trace (fst (signing ev s args)) =
           trace s @ [Fetch (waxAutoSigningURL s @ ''signing'') (Some args),
                      OpenEventSource (waxSigningURL s @ ''/cloud-wallet/signing/'') (Some args) None]"
proof -
  from assms show sg: "signing ev s args = signViaWindow ev s1 None args"
    by (simp add: signing_def)
  have t1: "trace s1 = trace s @ [Fetch (waxAutoSigningURL s @ ''signing'') (Some args)]"
    and u1: "waxSigningURL s1 = waxSigningURL s"
    using signViaEndpoint_keeps(1,3) [of ev s args] assms(2) by simp_all
  have "trace (fst (signViaWindow ev s1 None args)) =
          trace s1 @ [OpenEventSource (waxSigningURL s1 @ ''/cloud-wallet/signing/'') (Some args) None]"
    by (rule signViaWindow_keeps)
  with sg t1 u1 show "trace (fst (signing ev s args)) =
           trace s @ [Fetch (waxAutoSigningURL s @ ''signing'') (Some args),
                      OpenEventSource (waxSigningURL s @ ''/cloud-wallet/signing/'') (Some args) None]"
    by simp
qed

text \<open>For the failures that the \<^verbatim>\<open>catch\<close> block sees, the whitelist is empty when the popup
  window flow starts.\<close>

lemma signing_caught_failure:
  assumes "canAutoSign ev s (transaction args) = Inr True" and "caught_failure ev"
  shows "signing ev s args =
           signViaWindow ev
             (s\<lparr>trace := trace s @ [Fetch (waxAutoSigningURL s @ ''signing'') (Some args)],
                whitelistedContracts := Some []\<rparr>) None args"
proof -
  from assms(2) obtain e where "signViaEndpoint ev s args =
           (s\<lparr>trace := trace s @ [Fetch (waxAutoSigningURL s @ ''signing'') (Some args)],
              whitelistedContracts := Some []\<rparr>, Inl e)"
    using signViaEndpoint_caught by blast
  with assms(1) show ?thesis by (rule signing_fallback(1))
qed

section \<open>Session state\<close>

text \<open>
  C3. When \<open>receiveLogin\<close> succeeds, and when \<open>receiveSignatures\<close> succeeds on a message
  of type \<^verbatim>\<open>TX_SIGNED\<close>, the whitelist of the session is the \<^verbatim>\<open>whitelistedContracts\<close>
  of that message, or the empty list when the field is missing. The earlier whitelist
  has no part in the new one. Both succeed on every well-formed message: a verified login
  with an account and keys, a verified \<^verbatim>\<open>TX_SIGNED\<close> message with signatures and a
  serialized transaction.
\<close>

theorem whitelist_replaced:
  "(receiveLogin s d = (s', Inr u) \<longrightarrow>
      whitelistedContracts s' =
        Some (case d_whitelistedContracts d of None \<Rightarrow> [] | Some wl \<Rightarrow> wl))
   \<and> (d_type d = Some ''TX_SIGNED'' \<and> receiveSignatures s d = (s', Inr r) \<longrightarrow>
      whitelistedContracts s' =
        Some (case d_whitelistedContracts d of None \<Rightarrow> [] | Some wl \<Rightarrow> wl))
   \<and> (d_verified d = Some True \<and> d_userAccount d = Some acct \<and> d_pubKeys d = Some ks \<longrightarrow>
      snd (receiveLogin s d) = Inr acct
      \<and> whitelistedContracts (fst (receiveLogin s d)) =
          Some (case d_whitelistedContracts d of None \<Rightarrow> [] | Some wl \<Rightarrow> wl))
   \<and> (d_type d = Some ''TX_SIGNED'' \<and> d_verified d = Some True \<and> d_signatures d = Some sigs
        \<and> d_serializedTransaction d = Some bs \<longrightarrow>
      snd (receiveSignatures s d) = Inr (TxSigned sigs (map word_of_int bs))
      \<and> whitelistedContracts (fst (receiveSignatures s d)) =
          Some (case d_whitelistedContracts d of None \<Rightarrow> [] | Some wl \<Rightarrow> wl))"
proof (intro conjI impI)
  assume "receiveLogin s d = (s', Inr u)"
  then show "whitelistedContracts s' =
        Some (case d_whitelistedContracts d of None \<Rightarrow> [] | Some wl \<Rightarrow> wl)"
    by (auto simp: receiveLogin_def or_empty_def split: if_splits option.splits)
next
  assume "d_type d = Some ''TX_SIGNED'' \<and> receiveSignatures s d = (s', Inr r)"
  then show "whitelistedContracts s' =
        Some (case d_whitelistedContracts d of None \<Rightarrow> [] | Some wl \<Rightarrow> wl)"
    by (auto simp: receiveSignatures_def or_empty_def Let_def split: if_splits option.splits)
next
  assume a: "d_verified d = Some True \<and> d_userAccount d = Some acct \<and> d_pubKeys d = Some ks"
  then show "snd (receiveLogin s d) = Inr acct"
    by (simp add: receiveLogin_def)
  from a show "whitelistedContracts (fst (receiveLogin s d)) =
          Some (case d_whitelistedContracts d of None \<Rightarrow> [] | Some wl \<Rightarrow> wl)"
    by (simp add: receiveLogin_def or_empty_def)
next
  assume a: "d_type d = Some ''TX_SIGNED'' \<and> d_verified d = Some True \<and> d_signatures d = Some sigs
        \<and> d_serializedTransaction d = Some bs"
  then show "snd (receiveSignatures s d) = Inr (TxSigned sigs (map word_of_int bs))"
    by (simp add: receiveSignatures_def Let_def)
  from a show "whitelistedContracts (fst (receiveSignatures s d)) =
          Some (case d_whitelistedContracts d of None \<Rightarrow> [] | Some wl \<Rightarrow> wl)"
    by (simp add: receiveSignatures_def or_empty_def Let_def)
qed

text \<open>The theorem in a session whose whitelist has one entry for \<^verbatim>\<open>bob\<close>: a login message
  that carries an entry for \<^verbatim>\<open>carol\<close>, a login message without \<^verbatim>\<open>whitelistedContracts\<close>,
  and a signed message that carries an entry for \<^verbatim>\<open>dave\<close>. The new whitelist is the
  message's list, and \<^verbatim>\<open>bob\<close>'s entry is gone.\<close>

theorem whitelist_replaced_witness:
  "snd (receiveLogin (session_with [token_entry (Some [''bob''])] None)
         (login_message\<lparr>d_whitelistedContracts := Some [token_entry (Some [''carol''])]\<rparr>))
     = Inr ''alice''
   \<and> whitelistedContracts
        (fst (receiveLogin (session_with [token_entry (Some [''bob''])] None)
               (login_message\<lparr>d_whitelistedContracts := Some [token_entry (Some [''carol''])]\<rparr>)))
       = Some [token_entry (Some [''carol''])]
   \<and> whitelistedContracts
        (fst (receiveLogin (session_with [token_entry (Some [''bob''])] None) login_message))
       = Some []
   \<and> snd (receiveSignatures (session_with [token_entry (Some [''bob''])] None)
         (signed_message\<lparr>d_whitelistedContracts := Some [token_entry (Some [''dave''])]\<rparr>))
       = Inr (TxSigned [''SIG1''] [1, 2, 3])
   \<and> whitelistedContracts
        (fst (receiveSignatures (session_with [token_entry (Some [''bob''])] None)
               (signed_message\<lparr>d_whitelistedContracts := Some [token_entry (Some [''dave''])]\<rparr>)))
       = Some [token_entry (Some [''dave''])]"
proof -
  let ?s = "session_with [token_entry (Some [''bob''])] None"
  let ?l = "login_message\<lparr>d_whitelistedContracts := Some [token_entry (Some [''carol''])]\<rparr>"
  let ?g = "signed_message\<lparr>d_whitelistedContracts := Some [token_entry (Some [''dave''])]\<rparr>"
  have l: "d_verified ?l = Some True \<and> d_userAccount ?l = Some ''alice''
             \<and> d_pubKeys ?l = Some [''PUB_K1'']"
    and l0: "d_verified login_message = Some True \<and> d_userAccount login_message = Some ''alice''
             \<and> d_pubKeys login_message = Some [''PUB_K1'']"
    by (simp_all add: login_message_def message_def)
  have g: "d_type ?g = Some ''TX_SIGNED'' \<and> d_verified ?g = Some True
             \<and> d_signatures ?g = Some [''SIG1''] \<and> d_serializedTransaction ?g = Some [1, 2, 3]"
    by (simp add: signed_message_def message_def)
  have 1: "snd (receiveLogin ?s ?l) = Inr ''alice''
           \<and> whitelistedContracts (fst (receiveLogin ?s ?l)) =
               Some (case d_whitelistedContracts ?l of None \<Rightarrow> [] | Some wl \<Rightarrow> wl)"
    using whitelist_replaced [where s = ?s and d = ?l and acct = "''alice''" and ks = "[''PUB_K1'']",
        THEN conjunct2, THEN conjunct2, THEN conjunct1] l
    by (rule mp)
  have 2: "snd (receiveLogin ?s login_message) = Inr ''alice''
           \<and> whitelistedContracts (fst (receiveLogin ?s login_message)) =
               Some (case d_whitelistedContracts login_message of None \<Rightarrow> [] | Some wl \<Rightarrow> wl)"
    using whitelist_replaced [where s = ?s and d = login_message and acct = "''alice''"
          and ks = "[''PUB_K1'']", THEN conjunct2, THEN conjunct2, THEN conjunct1] l0
    by (rule mp)
  have 3: "snd (receiveSignatures ?s ?g) = Inr (TxSigned [''SIG1''] (map word_of_int [1, 2, 3]))
           \<and> whitelistedContracts (fst (receiveSignatures ?s ?g)) =
               Some (case d_whitelistedContracts ?g of None \<Rightarrow> [] | Some wl \<Rightarrow> wl)"
    using whitelist_replaced [where s = ?s and d = ?g and sigs = "[''SIG1'']" and bs = "[1, 2, 3]",
        THEN conjunct2, THEN conjunct2, THEN conjunct2] g
    by (rule mp)
  from 1 have a: "snd (receiveLogin ?s ?l) = Inr ''alice''"
    and b: "whitelistedContracts (fst (receiveLogin ?s ?l)) = Some [token_entry (Some [''carol''])]"
    by simp_all
  from 2 have c: "whitelistedContracts (fst (receiveLogin ?s login_message)) = Some []"
    by (simp add: login_message_def message_def)
  from 3 have e: "snd (receiveSignatures ?s ?g) = Inr (TxSigned [''SIG1''] [1, 2, 3])"
    and f: "whitelistedContracts (fst (receiveSignatures ?s ?g)) = Some [token_entry (Some [''dave''])]"
    by simp_all
  from a b c e f show ?thesis by (intro conjI)
qed

section \<open>The signing router\<close>

text \<open>
  C4. The claim is that whenever the transaction passes \<open>canAutoSign\<close> and the signing
  endpoint fails in any way, an error thrown among them, the whitelist becomes empty and
  one popup window signing attempt with no window handle follows. Here the transaction
  passes \<open>canAutoSign\<close> and the endpoint answers with status 200 and a \<^verbatim>\<open>TX_SIGNED\<close> message
  that is not verified. \<open>receiveSignatures\<close> throws, \<open>signViaEndpoint\<close> rejects with that
  error, and the one popup window attempt with no window handle follows; but the promise
  of \<open>receiveSignatures\<close> was returned without \<^verbatim>\<open>await\<close>, the \<^verbatim>\<open>catch\<close> block has not run,
  and the whitelist still holds its entry, when the popup window flow starts and when
  \<open>signing\<close> ends.
\<close>

theorem signing_declined_reply_keeps_whitelist:
  "canAutoSign declining_env (session_with [token_entry (Some [''bob''])] None)
     (transaction example_args) = Inr True
   \<and> signViaEndpoint declining_env (session_with [token_entry (Some [''bob''])] None) example_args
       = ((session_with [token_entry (Some [''bob''])] None)
            \<lparr>trace := [Fetch ''https://api-idm.wax.io/v1/accounts/auto-accept/signing''
                         (Some example_args)]\<rparr>,
          Inl SigningDeclined)
   \<and> whitelistedContracts
        (fst (signViaEndpoint declining_env (session_with [token_entry (Some [''bob''])] None)
               example_args))
       = Some [token_entry (Some [''bob''])]
   \<and> signing declining_env (session_with [token_entry (Some [''bob''])] None) example_args
       = signViaWindow declining_env
           ((session_with [token_entry (Some [''bob''])] None)
              \<lparr>trace := [Fetch ''https://api-idm.wax.io/v1/accounts/auto-accept/signing''
                           (Some example_args)]\<rparr>)
           None example_args
   \<and> trace (fst (signing declining_env (session_with [token_entry (Some [''bob''])] None)
        example_args))
       = [Fetch ''https://api-idm.wax.io/v1/accounts/auto-accept/signing'' (Some example_args),
          OpenEventSource ''https://all-access.wax.io/cloud-wallet/signing/'' (Some example_args)
            None]
   \<and> snd (signing declining_env (session_with [token_entry (Some [''bob''])] None) example_args)
       = Inl SigningDeclined
   \<and> whitelistedContracts
        (fst (signing declining_env (session_with [token_entry (Some [''bob''])] None)
               example_args))
       = Some [token_entry (Some [''bob''])]"
proof -
  let ?s = "session_with [token_entry (Some [''bob''])] None"
  let ?s1 = "?s\<lparr>trace := [Fetch ''https://api-idm.wax.io/v1/accounts/auto-accept/signing''
                         (Some example_args)]\<rparr>"
  have c: "canAutoSign declining_env ?s (transaction example_args) = Inr True"
    by (simp add: canAutoSign_def not_whitelisted_def isWhitelisted_def whitelist_callback_def
        array_includes_def declining_env_def session_with_def token_entry_def transfer_to_def
        example_args_def)
  have e: "signViaEndpoint declining_env ?s example_args = (?s1, Inl SigningDeclined)"
    by (simp add: signViaEndpoint_def receiveSignatures_def Let_def declining_env_def
        declined_message_def message_def session_with_def)
  have w1: "whitelistedContracts ?s1 = Some [token_entry (Some [''bob''])]"
    by (simp add: session_with_def)
  have g: "signing declining_env ?s example_args = signViaWindow declining_env ?s1 None example_args"
    using c e by (rule signing_fallback(1))
  have t: "trace (fst (signing declining_env ?s example_args))
       = [Fetch ''https://api-idm.wax.io/v1/accounts/auto-accept/signing'' (Some example_args),
          OpenEventSource ''https://all-access.wax.io/cloud-wallet/signing/'' (Some example_args)
            None]"
    using signing_fallback(2) [OF c e] by (simp add: session_with_def)
  have p: "signViaWindow declining_env ?s1 None example_args
       = (?s1\<lparr>trace := trace ?s1 @
             [OpenEventSource ''https://all-access.wax.io/cloud-wallet/signing/'' (Some example_args)
                None]\<rparr>, Inl SigningDeclined)"
    by (simp add: signViaWindow_def openEventSource_def onceEvent_def receiveSignatures_def Let_def
        declining_env_def declined_message_def message_def session_with_def)
  from g p have r: "snd (signing declining_env ?s example_args) = Inl SigningDeclined"
    and f: "whitelistedContracts (fst (signing declining_env ?s example_args))
              = Some [token_entry (Some [''bob''])]"
    by (simp_all add: session_with_def)
  from e w1 have w2: "whitelistedContracts (fst (signViaEndpoint declining_env ?s example_args))
       = Some [token_entry (Some [''bob''])]"
    by simp
  from c e w2 g t r f show ?thesis by (intro conjI)
qed

text \<open>
  C5. For every message of type \<^verbatim>\<open>TX_SIGNED\<close> whose \<^verbatim>\<open>verified\<close> is not true or whose
  \<^verbatim>\<open>signatures\<close> are missing, \<open>receiveSignatures\<close> fails with the error that the user
  declined to sign, and the session is left as it was.
\<close>

theorem receiveSignatures_declined:
  assumes "d_type d = Some ''TX_SIGNED''"
    and "d_verified d \<noteq> Some True \<or> d_signatures d = None"
  shows "receiveSignatures s d = (s, Inl SigningDeclined)"
  using assms by (auto simp: receiveSignatures_def)

theorem receiveSignatures_declined_witness:
  "d_type ((message ''TX_SIGNED'')\<lparr>d_verified := Some False\<rparr>) = Some ''TX_SIGNED''
   \<and> d_verified ((message ''TX_SIGNED'')\<lparr>d_verified := Some False\<rparr>) = Some False
   \<and> receiveSignatures (session_with [] None) ((message ''TX_SIGNED'')\<lparr>d_verified := Some False\<rparr>)
       = (session_with [] None, Inl SigningDeclined)"
proof -
  let ?d = "(message ''TX_SIGNED'')\<lparr>d_verified := Some False\<rparr>"
  have h1: "d_type ?d = Some ''TX_SIGNED''" and v: "d_verified ?d = Some False"
    by (simp_all add: message_def)
  then have h2: "d_verified ?d \<noteq> Some True \<or> d_signatures ?d = None"
    by simp
  from receiveSignatures_declined [OF h1 h2] h1 v show ?thesis by blast
qed

section \<open>The signature provider and the login\<close>



text \<open>
  C7. After the constructor has received the account \<^verbatim>\<open>alice\<close> and the keys \<^verbatim>\<open>["PUB_K1"]\<close>,
  whatever the rest of its argument is, \<open>login\<close> returns \<^verbatim>\<open>alice\<close> and leaves the session
  as it is; neither the constructor nor \<open>login\<close> has made a request or opened a window.
\<close>

theorem login_from_constructor:
  "login ev' (constructor ev (c\<lparr>c_userAccount := Some ''alice'', c_pubKeys := Some [''PUB_K1'']\<rparr>) store)
     = (constructor ev (c\<lparr>c_userAccount := Some ''alice'', c_pubKeys := Some [''PUB_K1'']\<rparr>) store,
        Inr ''alice'')
   \<and> trace (constructor ev (c\<lparr>c_userAccount := Some ''alice'', c_pubKeys := Some [''PUB_K1'']\<rparr>) store)
     = []"
  by (simp add: constructor_def initial_def receiveLogin_def login_def logged_in_def Let_def)

theorem login_from_constructor_witness:
  "snd (login (popup_env []) (constructor (popup_env []) example_config Map.empty)) = Inr ''alice''
   \<and> trace (fst (login (popup_env []) (constructor (popup_env []) example_config Map.empty))) = []"
proof -
  have "example_config\<lparr>c_userAccount := Some ''alice'', c_pubKeys := Some [''PUB_K1'']\<rparr>
          = example_config"
    by (simp add: example_config_def)
  with login_from_constructor [of "popup_env []" "popup_env []" example_config Map.empty]
  show ?thesis by simp
qed

text \<open>
  C8 (amended). In a session with public keys, \<open>getAvailableKeys\<close> returns the wallet's keys
  when no co-signer is configured, and the wallet's keys followed by the co-signer's keys
  when the co-signer gives its keys. When the co-signer's key enumeration raises an error,
  \<open>getAvailableKeys\<close> fails with that error.
\<close>

theorem getAvailableKeys_concat:
  assumes "pubKeys s = Some ks"
  shows "(apiSigner s = None \<longrightarrow> getAvailableKeys s = Inr ks)
       \<and> (\<forall>c cs. apiSigner s = Some c \<and> sp_getAvailableKeys c = Inr cs \<longrightarrow>
            getAvailableKeys s = Inr (ks @ cs))
       \<and> (\<forall>c e. apiSigner s = Some c \<and> sp_getAvailableKeys c = Inl e \<longrightarrow>
            getAvailableKeys s = Inl e)"
  using assms by (simp add: getAvailableKeys_def)

theorem getAvailableKeys_concat_witness:
  "pubKeys (session_with [] (Some example_cosigner)) = Some [''PUB_K1'']
   \<and> apiSigner (session_with [] (Some example_cosigner)) = Some example_cosigner
   \<and> sp_getAvailableKeys example_cosigner = Inr [''PUB_K2'']
   \<and> getAvailableKeys (session_with [] (Some example_cosigner)) = Inr [''PUB_K1'', ''PUB_K2'']
   \<and> getAvailableKeys (session_with [] None) = Inr [''PUB_K1'']"
proof -
  have p: "\<And>c. pubKeys (session_with [] c) = Some [''PUB_K1'']"
    and a: "\<And>c. apiSigner (session_with [] c) = c"
    by (simp_all add: session_with_def)
  have k: "sp_getAvailableKeys example_cosigner = Inr [''PUB_K2'']"
    by (simp add: example_cosigner_def)
  from getAvailableKeys_concat [OF p, of "Some example_cosigner"] a k
  have "getAvailableKeys (session_with [] (Some example_cosigner)) = Inr ([''PUB_K1''] @ [''PUB_K2''])"
    by simp
  moreover from getAvailableKeys_concat [OF p, of None] a
  have "getAvailableKeys (session_with [] None) = Inr [''PUB_K1'']"
    by simp
  ultimately show ?thesis using p a k by simp
qed

text \<open>The claim as first stated fails with a co-signer whose key enumeration raises an
  error: \<open>getAvailableKeys\<close> fails with it.\<close>

theorem getAvailableKeys_counterexample:
  "getAvailableKeys (session_with [] (Some failing_cosigner))
     = Inl (Thrown ''co-signer unavailable'')"
  by (simp add: getAvailableKeys_def session_with_def failing_cosigner_def)

text \<open>
  C9 (amended). During the popup window signing flow, on a message of type \<^verbatim>\<open>READY\<close> the
  handler \<open>receiveSignatures\<close> returns the empty array without an error and leaves the
  session as it is. \<^verbatim>\<open>onceEvent\<close> resolves with the handler's value after that one message,
  so when \<^verbatim>\<open>READY\<close> is the first message the flow ends with the empty array, and the
  messages that follow it are not handled.
\<close>

theorem ready_resolves_empty:
  assumes "d_type d = Some ''READY''"
  shows "receiveSignatures s d = (s, Inr EmptyArray)
       \<and> (\<forall>w. openEventSource ev win = Inr w \<and> inbox ev = d # rest \<longrightarrow>
            signViaWindow ev s win args =
              (s\<lparr>trace := trace s @
                   [OpenEventSource (waxSigningURL s @ ''/cloud-wallet/signing/'') (Some args) win]\<rparr>,
               Inr EmptyArray))"
  using assms by (simp add: receiveSignatures_def signViaWindow_def onceEvent_def Let_def)

theorem ready_resolves_empty_witness:
  "d_type (message ''READY'') = Some ''READY''
   \<and> openEventSource (popup_env [message ''READY'', signed_message]) None = Inr 1
   \<and> inbox (popup_env [message ''READY'', signed_message]) = message ''READY'' # [signed_message]
   \<and> snd (signViaWindow (popup_env [message ''READY'', signed_message])
        (session_with [token_entry None] None) None example_args) = Inr EmptyArray"
proof -
  let ?ev = "popup_env [message ''READY'', signed_message]"
  have h: "d_type (message ''READY'') = Some ''READY''"
    by (simp add: message_def)
  have o: "openEventSource ?ev None = Inr 1"
    and i: "inbox ?ev = message ''READY'' # [signed_message]"
    by (simp_all add: openEventSource_def popup_env_def)
  from ready_resolves_empty [OF h, of _ ?ev None "[signed_message]"] o i
  have "snd (signViaWindow ?ev (session_with [token_entry None] None) None example_args)
          = Inr EmptyArray"
    by simp
  with h o i show ?thesis by blast
qed

text \<open>The claim as first stated fails where \<^verbatim>\<open>READY\<close> comes before the signed transaction:
  the flow ends with the empty array and the whitelist of the session is not replaced,
  while the signed transaction alone would have given the signatures.\<close>

theorem ready_resolves_empty_counterexample:
  "snd (signViaWindow (popup_env [message ''READY'', signed_message])
        (session_with [token_entry None] None) None example_args) = Inr EmptyArray
   \<and> whitelistedContracts (fst (signViaWindow (popup_env [message ''READY'', signed_message])
        (session_with [token_entry None] None) None example_args)) = Some [token_entry None]
   \<and> snd (signViaWindow (popup_env [signed_message])
        (session_with [token_entry None] None) None example_args)
       = Inr (TxSigned [''SIG1''] [1, 2, 3])"
  by (simp add: signViaWindow_def openEventSource_def onceEvent_def receiveSignatures_def
      Let_def popup_env_def session_with_def message_def signed_message_def)

end
